theory Spec2Isabelle
  imports Complex_Main
begin

section \<open>Session-state reconciliation of the streaming chat front end\<close>

text \<open>
  The development embeds the state handling of \<^verbatim>\<open>App.tsx\<close> (event classification,
  archival effect, submission, cancellation) and the projection of
  \<^verbatim>\<open>ChatMessagesView.tsx\<close> and \<^verbatim>\<open>YouTubeResults.tsx\<close> that decides where the
  YouTube payload is shown. React state is a record that every handler takes and
  returns; the transport object \<^verbatim>\<open>thread\<close> of \<^verbatim>\<open>useStream\<close> is an input of
  the handlers, and the calls made on it are returned as a list.

  JavaScript strings are modelled by \<^typ>\<open>string\<close>, a missing (\<^verbatim>\<open>undefined\<close>) field
  by \<^const>\<open>None\<close>. A field that is present has the shape its TypeScript interface or
  its use in the code gives it.
\<close>

subsection \<open>Text helpers of the JavaScript runtime\<close>

definition digit_char :: "nat \<Rightarrow> char" where
  "digit_char d = ''0123456789'' ! (d mod 10)"

text \<open>Decimal rendering of a non-negative integer inside a template literal.\<close>

function string_of_nat :: "nat \<Rightarrow> string" where
  "string_of_nat n =
     (if n < 10 then [digit_char n]
      else string_of_nat (n div 10) @ [digit_char (n mod 10)])"
  by pat_completeness auto
termination
  by (relation "measure (\<lambda>n. n)") auto

declare string_of_nat.simps [simp del]

definition string_of_int :: "int \<Rightarrow> string" where
  "string_of_int i = (if i < 0 then ''-'' @ string_of_nat (nat (- i)) else string_of_nat (nat i))"

text \<open>\<^verbatim>\<open>Array.prototype.join\<close> on an array of strings.\<close>

fun join :: "string \<Rightarrow> string list \<Rightarrow> string" where
  "join sep [] = []"
| "join sep [x] = x"
| "join sep (x # y # ys) = x @ sep @ join sep (y # ys)"

text \<open>
  \<^verbatim>\<open>new Set(xs)\<close> spread back into an array: the elements are added one by one, an
  element that is already present is skipped, and iteration follows insertion order.
\<close>

definition Set_add :: "'a list \<Rightarrow> 'a \<Rightarrow> 'a list" where
  "Set_add acc x = (if x \<in> set acc then acc else acc @ [x])"

definition new_Set :: "'a list \<Rightarrow> 'a list" where
  "new_Set xs = foldl Set_add [] xs"

text \<open>
  \<^verbatim>\<open>Math.round\<close> rounds to the nearest integer, a tie towards plus infinity. The
  confidence is a double in the source; it is a rational here, so the product with 100
  is exact where the source rounds in double arithmetic, and the result is printed in
  full where the source switches to exponent notation from \<^verbatim>\<open>1e21\<close> on. No
  statement below depends on the digits.
\<close>

definition Math_round :: "rat \<Rightarrow> int" where
  "Math_round x = \<lfloor>x + 1 / 2\<rfloor>"

text \<open>An \<^verbatim>\<open>undefined\<close> string inside a template literal prints as \<^verbatim>\<open>undefined\<close>.\<close>

definition template_str :: "string option \<Rightarrow> string" where
  "template_str v = (case v of None \<Rightarrow> ''undefined'' | Some x \<Rightarrow> x)"

text \<open>\<^verbatim>\<open>String.prototype.trim\<close> leaves the empty string exactly when every character
  is white space (tab, line feed, vertical tab, form feed, carriage return, space,
  no-break space in the eight-bit range of \<^typ>\<open>char\<close>).\<close>

definition is_whitespace :: "char \<Rightarrow> bool" where
  "is_whitespace c = ((of_char c :: nat) \<in> {9, 10, 11, 12, 13, 32, 160})"

definition trim_is_empty :: "string \<Rightarrow> bool" where
  "trim_is_empty str = list_all is_whitespace str"

subsection \<open>Data\<close>

text \<open>\<^verbatim>\<open>ProcessedEvent\<close>: one line of the activity timeline.\<close>

record ProcessedEvent =
  title :: string
  data :: string

text \<open>\<^verbatim>\<open>Message\<close> of the transport library, as far as the code reads it. The
  fields \<^verbatim>\<open>type\<close> and \<^verbatim>\<open>id\<close> are \<open>mtype\<close> and \<open>mid\<close> here; the code tests
  the type against the strings \<^verbatim>\<open>human\<close> and \<^verbatim>\<open>ai\<close>.\<close>

record Message =
  mtype :: string
  content :: string
  mid :: "string option"

record YouTubeVideo =
  video_id :: string
  video_title :: string
  channel :: string
  description :: string
  thumbnail_url :: string
  duration :: string
  view_count :: string
  published_at :: string

text \<open>
  The payload of a \<^verbatim>\<open>youtube_action\<close> event, and the object kept in the
  \<^verbatim>\<open>youtubeResults\<close> state: the payload spread together with a time stamp and the
  thread identifier.
\<close>

record YouTubeResults =
  videos :: "YouTubeVideo list option"
  query :: "string option"
  total_results :: "nat option"

record StableResults = YouTubeResults +
  timestamp :: nat
  threadId :: string

text \<open>The raw event of \<^verbatim>\<open>onUpdateEvent\<close>: one optional sub-object per kind.\<close>

record ClassifyIntent =
  intent_type :: "string option"
  confidence :: "rat option"

record YouTubeAction =
  youtube_results :: "YouTubeResults option"

datatype QueryList = Queries "string list" | Scalar string

record GenerateQuery =
  query_list :: "QueryList option"

record Source =
  label :: "string option"

record WebResearch =
  sources_gathered :: "Source list option"

record Reflection =
  is_sufficient :: "bool option"
  follow_up_queries :: "string list option"

record RawEvent =
  classify_intent :: "ClassifyIntent option"
  youtube_action :: "YouTubeAction option"
  generate_query :: "GenerateQuery option"
  web_research :: "WebResearch option"
  reflection :: "Reflection option"
  finalize_answer :: "unit option"

text \<open>The React state of \<^verbatim>\<open>App\<close>, with the ref \<^verbatim>\<open>hasFinalizeEventOccurredRef\<close>.\<close>

record AppState =
  processedEventsTimeline :: "ProcessedEvent list"
  historicalActivities :: "string \<rightharpoonup> ProcessedEvent list"
  youtubeResults :: "StableResults option"
  currentThreadId :: string
  hasFinalizeEventOccurred :: bool

definition initial_state :: AppState where
  "initial_state =
     \<lparr>processedEventsTimeline = [], historicalActivities = Map.empty,
      youtubeResults = None, currentThreadId = [], hasFinalizeEventOccurred = False\<rparr>"

text \<open>What \<^verbatim>\<open>useStream\<close> exposes and the handlers read.\<close>

record Thread =
  messages :: "Message list"
  isLoading :: bool

subsection \<open>\<^verbatim>\<open>onUpdateEvent\<close>\<close>

definition intent_event :: "ClassifyIntent \<Rightarrow> ProcessedEvent" where
  "intent_event ci =
     \<lparr>title = ''Analyzing Intent'',
      data = ''Detected: '' @ template_str (intent_type ci) @ '' ('' @
        (case confidence ci of None \<Rightarrow> ''NaN''
         | Some c \<Rightarrow> string_of_int (Math_round (c * 100))) @ ''% confidence)''\<rparr>"

text \<open>The test \<^verbatim>\<open>results && results.videos && results.videos.length > 0\<close>.\<close>

definition has_videos :: "('a YouTubeResults_scheme) option \<Rightarrow> bool" where
  "has_videos results =
     (case results of None \<Rightarrow> False
      | Some r \<Rightarrow> (case videos r of None \<Rightarrow> False | Some vs \<Rightarrow> 0 < length vs))"

definition stableResults :: "YouTubeResults \<Rightarrow> nat \<Rightarrow> string \<Rightarrow> StableResults" where
  "stableResults r now tid =
     \<lparr>videos = videos r, query = query r, total_results = total_results r,
      timestamp = now, threadId = tid\<rparr>"

definition youtube_found_event :: "YouTubeResults \<Rightarrow> ProcessedEvent" where
  "youtube_found_event r =
     \<lparr>title = ''YouTube Search'',
      data = ''Found '' @ string_of_nat (length (the (videos r))) @ '' videos for \"'' @
        template_str (query r) @ ''\"''\<rparr>"

definition youtube_none_event :: ProcessedEvent where
  "youtube_none_event =
     \<lparr>title = ''YouTube Search'', data = ''No videos found or YouTube not configured''\<rparr>"

definition query_event :: "GenerateQuery \<Rightarrow> ProcessedEvent" where
  "query_event gq =
     \<lparr>title = ''Generating Search Queries'',
      data = (case query_list gq of
                None \<Rightarrow> join '', '' []
              | Some (Queries qs) \<Rightarrow> join '', '' qs
              | Some (Scalar q) \<Rightarrow> (if q = [] then join '', '' [] else q))\<rparr>"

text \<open>\<^verbatim>\<open>filter(Boolean)\<close> on the labels keeps the non-empty strings.\<close>

definition truthy_labels :: "Source list \<Rightarrow> string list" where
  "truthy_labels sources =
     List.map_filter (\<lambda>s. case label s of None \<Rightarrow> None
                           | Some l \<Rightarrow> (if l = [] then None else Some l)) sources"

definition research_event :: "WebResearch \<Rightarrow> ProcessedEvent" where
  "research_event w =
     (let sources = (case sources_gathered w of None \<Rightarrow> [] | Some ss \<Rightarrow> ss);
          numSources = length sources;
          uniqueLabels = new_Set (truthy_labels sources);
          exampleLabels = join '', '' (take 3 uniqueLabels)
      in \<lparr>title = ''Web Research'',
          data = ''Gathered '' @ string_of_nat numSources @ '' sources. Related to: '' @
            (if exampleLabels = [] then ''N/A'' else exampleLabels) @ ''.''\<rparr>)"

definition reflection_event :: "Reflection \<Rightarrow> ProcessedEvent" where
  "reflection_event r =
     \<lparr>title = ''Reflection'',
      data = (if is_sufficient r = Some True
              then ''Search successful, generating final answer.''
              else ''Need more information, searching for '' @
                (case follow_up_queries r of
                   None \<Rightarrow> ''additional information''
                 | Some qs \<Rightarrow> (if join '', '' qs = [] then ''additional information''
                              else join '', '' qs)))\<rparr>"

definition finalize_event :: ProcessedEvent where
  "finalize_event =
     \<lparr>title = ''Finalizing Answer'', data = ''Composing and presenting the final answer.''\<rparr>"

text \<open>
  What the callback reads outside the React state: the value of \<^verbatim>\<open>Date.now()\<close>, and
  the \<^verbatim>\<open>currentThreadId\<close> of its closure. The callback is created in a render and
  sees the thread identifier of that render; which render's callback the transport
  calls is up to the transport, so the captured identifier is an input here and not
  read from the state at the time of the event.
\<close>

record UpdateEnv =
  date_now :: nat
  closure_threadId :: string

text \<open>
  The \<^verbatim>\<open>if / else if\<close> chain: the first kind that is present decides. The result is
  the \<^verbatim>\<open>processedEvent\<close> (or \<^verbatim>\<open>null\<close>) and the state after the assignments made in
  the branch.
\<close>

definition classify :: "UpdateEnv \<Rightarrow> RawEvent \<Rightarrow> AppState \<Rightarrow> ProcessedEvent option \<times> AppState" where
  "classify env event s =
     (case classify_intent event of
        Some ci \<Rightarrow> (Some (intent_event ci), s)
      | None \<Rightarrow>
     (case youtube_action event of
        Some ya \<Rightarrow>
          (if has_videos (youtube_results ya)
           then (Some (youtube_found_event (the (youtube_results ya))),
                 s\<lparr>youtubeResults :=
                     Some (stableResults (the (youtube_results ya)) (date_now env)
                             (closure_threadId env))\<rparr>)
           else (Some youtube_none_event, s))
      | None \<Rightarrow>
     (case generate_query event of
        Some gq \<Rightarrow> (Some (query_event gq), s)
      | None \<Rightarrow>
     (case web_research event of
        Some w \<Rightarrow> (Some (research_event w), s)
      | None \<Rightarrow>
     (case reflection event of
        Some r \<Rightarrow> (Some (reflection_event r), s)
      | None \<Rightarrow>
     (case finalize_answer event of
        Some _ \<Rightarrow> (Some finalize_event, s\<lparr>hasFinalizeEventOccurred := True\<rparr>)
      | None \<Rightarrow> (None, s)))))))"

definition onUpdateEvent :: "UpdateEnv \<Rightarrow> RawEvent \<Rightarrow> AppState \<Rightarrow> AppState" where
  "onUpdateEvent env event s =
     (case classify env event s of
        (Some processedEvent, s') \<Rightarrow>
          s'\<lparr>processedEventsTimeline := processedEventsTimeline s' @ [processedEvent]\<rparr>
      | (None, s') \<Rightarrow> s')"

subsection \<open>The archival effect\<close>

text \<open>A message identifier counts when it is present and not the empty string.\<close>

definition known_id :: "string option \<Rightarrow> bool" where
  "known_id i = (case i of None \<Rightarrow> False | Some x \<Rightarrow> x \<noteq> [])"

text \<open>
  The body of the second \<^verbatim>\<open>useEffect\<close> of \<^verbatim>\<open>App\<close>. React runs it after a render
  in which \<^verbatim>\<open>thread.messages\<close>, \<^verbatim>\<open>thread.isLoading\<close> or the timeline changed.
\<close>

definition archival_effect :: "Thread \<Rightarrow> AppState \<Rightarrow> AppState" where
  "archival_effect thread s =
     (if hasFinalizeEventOccurred s \<and> \<not> isLoading thread \<and> 0 < length (messages thread)
      then
        (let lastMessage = messages thread ! (length (messages thread) - 1);
             s1 = (if mtype lastMessage = ''ai'' \<and> known_id (mid lastMessage)
                   then s\<lparr>historicalActivities :=
                           (historicalActivities s)
                             (the (mid lastMessage) \<mapsto> processedEventsTimeline s)\<rparr>
                   else s)
         in s1\<lparr>hasFinalizeEventOccurred := False\<rparr>)
      else s)"

subsection \<open>\<^verbatim>\<open>handleSubmit\<close> and \<^verbatim>\<open>handleCancel\<close>\<close>

text \<open>The values the handler draws from the clock and the random generator:
  \<^verbatim>\<open>Date.now()\<close> for the thread identifier, \<^verbatim>\<open>Math.random().toString(36)\<close>, and
  \<^verbatim>\<open>Date.now()\<close> for the identifier of the human message.\<close>

record SubmitEnv =
  now_thread :: nat
  random36 :: string
  now_message :: nat

record SubmitArgs =
  submitted_messages :: "Message list"
  initial_search_query_count :: nat
  max_research_loops :: nat
  reasoning_model :: string

text \<open>What a handler does outside the React state, in the order of the calls.\<close>

datatype Effect = thread_submit SubmitArgs | thread_stop | window_location_reload

text \<open>The \<^verbatim>\<open>switch (effort)\<close>: three cases, no default.\<close>

definition effort_counts :: "string \<Rightarrow> nat \<times> nat" where
  "effort_counts effort =
     (let initial_search_query_count = 0; max_research_loops = 0
      in if effort = ''low'' then (1, 1)
         else if effort = ''medium'' then (3, 3)
         else if effort = ''high'' then (5, 10)
         else (initial_search_query_count, max_research_loops))"

definition handleSubmit ::
  "Thread \<Rightarrow> SubmitEnv \<Rightarrow> string \<Rightarrow> string \<Rightarrow> string \<Rightarrow> AppState \<Rightarrow> AppState \<times> Effect list" where
  "handleSubmit thread env submittedInputValue effort model s =
     (if trim_is_empty submittedInputValue then (s, [])
      else
        (let newThreadId = ''thread_'' @ string_of_nat (now_thread env) @ ''_'' @
                           take 9 (drop 2 (random36 env));
             s1 = s\<lparr>currentThreadId := newThreadId\<rparr>;
             s2 = s1\<lparr>processedEventsTimeline := []\<rparr>;
             s3 = (if \<not> isLoading thread then s2\<lparr>youtubeResults := None\<rparr> else s2);
             s4 = s3\<lparr>hasFinalizeEventOccurred := False\<rparr>;
             newMessages = messages thread @
               [\<lparr>mtype = ''human'', content = submittedInputValue,
                 mid = Some (string_of_nat (now_message env))\<rparr>]
         in (s4, [thread_submit
                    \<lparr>submitted_messages = newMessages,
                     initial_search_query_count = fst (effort_counts effort),
                     max_research_loops = snd (effort_counts effort),
                     reasoning_model = model\<rparr>])))"

text \<open>
  \<^verbatim>\<open>window.location.reload()\<close> loads the page again: \<^verbatim>\<open>App\<close> is mounted anew and
  every \<^verbatim>\<open>useState\<close> and \<^verbatim>\<open>useRef\<close> starts from its initial value.
\<close>

definition reload :: "AppState \<Rightarrow> AppState" where
  "reload s = initial_state"

text \<open>The two state updates of \<^verbatim>\<open>handleCancel\<close>, before the page reloads.\<close>

definition cancel_updates :: "AppState \<Rightarrow> AppState" where
  "cancel_updates s = (s\<lparr>youtubeResults := None\<rparr>)\<lparr>currentThreadId := []\<rparr>"

definition handleCancel :: "AppState \<Rightarrow> AppState \<times> Effect list" where
  "handleCancel s = (reload (cancel_updates s), [thread_stop, window_location_reload])"

subsection \<open>The view\<close>

text \<open>Of the two copies of \<^verbatim>\<open>YouTubeResults.tsx\<close> the one marked as the fixed
  version is embedded, which is the one that carries the visibility flag.\<close>

record IntersectionEntry =
  isIntersecting :: bool
  intersectionRatio :: rat

text \<open>
  The component \<^verbatim>\<open>YouTubeResults\<close> keeps a flag \<^verbatim>\<open>isVisible\<close>, initially true. The
  callback of its \<^verbatim>\<open>IntersectionObserver\<close> and the effect on \<^verbatim>\<open>results\<close> set it;
  the component renders \<^verbatim>\<open>null\<close> when the flag is false.
\<close>

definition observer_callback ::
  "StableResults option \<Rightarrow> IntersectionEntry \<Rightarrow> bool \<Rightarrow> bool" where
  "observer_callback results entry isVisible =
     (if has_videos results then isIntersecting entry \<or> 0 < intersectionRatio entry
      else isVisible)"

definition results_effect :: "StableResults option \<Rightarrow> bool \<Rightarrow> bool" where
  "results_effect results isVisible = (if has_videos results then True else isVisible)"

definition YouTubeResults_renders :: "StableResults option \<Rightarrow> bool \<Rightarrow> bool" where
  "YouTubeResults_renders results isVisible =
     (\<not> (results = None \<or> videos (the results) = None \<or>
         length (the (videos (the results))) = 0 \<or> \<not> isVisible))"

definition shouldShowYouTube :: "bool \<Rightarrow> StableResults option \<Rightarrow> bool" where
  "shouldShowYouTube isLastMessage yt = (isLastMessage \<and> has_videos yt)"

text \<open>One rendered transcript entry: which bubble, the activity it lists, whether that
  activity is live, and whether the YouTube card is on screen in it.\<close>

record RenderEntry =
  entry_message :: Message
  ai_bubble :: bool
  activityForThisBubble :: "ProcessedEvent list option"
  isLiveActivityForThisBubble :: bool
  youtube_shown :: bool

definition HumanMessageBubble :: "Message \<Rightarrow> RenderEntry" where
  "HumanMessageBubble message =
     \<lparr>entry_message = message, ai_bubble = False, activityForThisBubble = None,
      isLiveActivityForThisBubble = False, youtube_shown = False\<rparr>"

definition AiMessageBubble ::
  "Message \<Rightarrow> ProcessedEvent list option \<Rightarrow> ProcessedEvent list \<Rightarrow> bool \<Rightarrow> bool \<Rightarrow>
   StableResults option \<Rightarrow> bool \<Rightarrow> RenderEntry" where
  "AiMessageBubble message historicalActivity liveActivity isLastMessage isOverallLoading
     yt isVisible =
     \<lparr>entry_message = message, ai_bubble = True,
      activityForThisBubble =
        (if isLastMessage \<and> isOverallLoading then Some liveActivity else historicalActivity),
      isLiveActivityForThisBubble = (isLastMessage \<and> isOverallLoading),
      youtube_shown = (shouldShowYouTube isLastMessage yt \<and> YouTubeResults_renders yt isVisible)\<rparr>"

text \<open>Reading \<^verbatim>\<open>historicalActivities[message.id!]\<close>: a missing identifier is the
  property name \<^verbatim>\<open>undefined\<close>. Only the object's own entries are modelled; an
  identifier such as \<^verbatim>\<open>constructor\<close> would find a member of the prototype in the
  source. No statement below depends on such a key.\<close>

definition lookup_activity ::
  "(string \<rightharpoonup> ProcessedEvent list) \<Rightarrow> string option \<Rightarrow> ProcessedEvent list option" where
  "lookup_activity h i = (case i of None \<Rightarrow> h ''undefined'' | Some k \<Rightarrow> h k)"

definition render_message ::
  "nat \<Rightarrow> bool \<Rightarrow> ProcessedEvent list \<Rightarrow> (string \<rightharpoonup> ProcessedEvent list) \<Rightarrow>
   StableResults option \<Rightarrow> bool \<Rightarrow> nat \<times> Message \<Rightarrow> RenderEntry" where
  "render_message n loading liveActivityEvents h yt isVisible im =
     (let index = fst im; message = snd im; isLast = (index = n - 1)
      in if mtype message = ''human'' then HumanMessageBubble message
         else AiMessageBubble message (lookup_activity h (mid message)) liveActivityEvents
                isLast loading (if isLast then yt else None) isVisible)"

definition ChatMessagesView ::
  "Thread \<Rightarrow> AppState \<Rightarrow> bool \<Rightarrow> RenderEntry list" where
  "ChatMessagesView thread s isVisible =
     map (render_message (length (messages thread)) (isLoading thread)
            (processedEventsTimeline s) (historicalActivities s) (youtubeResults s) isVisible)
         (enumerate 0 (messages thread))"

subsection \<open>Sessions\<close>

text \<open>A session is a sequence of the callbacks above, each with its inputs.\<close>

datatype Op =
    Submit Thread SubmitEnv string string string
  | Update UpdateEnv RawEvent
  | Archive Thread
  | Cancel

fun step :: "AppState \<Rightarrow> Op \<Rightarrow> AppState" where
  "step s (Submit thread env input effort model) = fst (handleSubmit thread env input effort model s)"
| "step s (Update env event) = onUpdateEvent env event s"
| "step s (Archive thread) = archival_effect thread s"
| "step s Cancel = fst (handleCancel s)"

definition run :: "AppState \<Rightarrow> Op list \<Rightarrow> AppState" where
  "run s ops = foldl step s ops"

text \<open>The identifier under which \<^const>\<open>archival_effect\<close> would store, if it stores.\<close>

definition archive_target :: "Thread \<Rightarrow> string option" where
  "archive_target thread =
     (if 0 < length (messages thread) \<and> mtype (last (messages thread)) = ''ai'' \<and>
         known_id (mid (last (messages thread)))
      then mid (last (messages thread)) else None)"

subsection \<open>Notions used in the statements\<close>

text \<open>
  The distinct elements of a list in the order of their first appearance, written as
  the specification words it: take the first element, drop its repetitions, go on.
\<close>

fun first_distinct :: "'a list \<Rightarrow> 'a list" where
  "first_distinct [] = []"
| "first_distinct (x # xs) = x # first_distinct (filter (\<lambda>y. y \<noteq> x) xs)"

text \<open>The payload an event hands to the \<^verbatim>\<open>youtubeResults\<close> state, if it hands one.\<close>

definition forwarded_payload :: "RawEvent \<Rightarrow> YouTubeResults option" where
  "forwarded_payload event =
     (case classify_intent event of Some _ \<Rightarrow> None
      | None \<Rightarrow> (case youtube_action event of None \<Rightarrow> None
                 | Some ya \<Rightarrow> (if has_videos (youtube_results ya) then youtube_results ya
                              else None)))"

text \<open>An event record without any known kind.\<close>

definition empty_event :: RawEvent where
  "empty_event =
     \<lparr>classify_intent = None, youtube_action = None, generate_query = None,
      web_research = None, reflection = None, finalize_answer = None\<rparr>"

text \<open>An event record that declares at least one of the six kinds.\<close>

definition declared_kind :: "RawEvent \<Rightarrow> bool" where
  "declared_kind event =
     (classify_intent event \<noteq> None \<or> youtube_action event \<noteq> None \<or>
      generate_query event \<noteq> None \<or> web_research event \<noteq> None \<or>
      reflection event \<noteq> None \<or> finalize_answer event \<noteq> None)"

definition updates :: "(UpdateEnv \<times> RawEvent) list \<Rightarrow> Op list" where
  "updates evs = map (\<lambda>(env, event). Update env event) evs"

subsection \<open>Example inputs\<close>

text \<open>A callback that captured the thread identifier \<open>tid\<close>, called at time \<open>n\<close>.\<close>

definition at_render :: "string \<Rightarrow> nat \<Rightarrow> UpdateEnv" where
  "at_render tid n = \<lparr>date_now = n, closure_threadId = tid\<rparr>"

definition example_sources :: "Source list" where
  "example_sources =
     [\<lparr>label = Some ''a''\<rparr>, \<lparr>label = Some ''a''\<rparr>, \<lparr>label = Some ''b''\<rparr>,
      \<lparr>label = Some ''c''\<rparr>, \<lparr>label = Some ''d''\<rparr>]"

definition web_research_only :: "WebResearch \<Rightarrow> RawEvent" where
  "web_research_only w = empty_event\<lparr>web_research := Some w\<rparr>"

definition youtube_only :: "YouTubeResults option \<Rightarrow> RawEvent" where
  "youtube_only r = empty_event\<lparr>youtube_action := Some \<lparr>youtube_results = r\<rparr>\<rparr>"

definition finalize_only :: RawEvent where
  "finalize_only = empty_event\<lparr>finalize_answer := Some ()\<rparr>"

definition one_video :: YouTubeVideo where
  "one_video =
     \<lparr>video_id = ''v1'', video_title = ''t'', channel = ''c'', description = ''d'',
      thumbnail_url = ''u'', duration = ''1:00'', view_count = ''10'',
      published_at = ''2024''\<rparr>"

definition payload :: YouTubeResults where
  "payload = \<lparr>videos = Some [one_video], query = Some ''cats'', total_results = Some 1\<rparr>"

text \<open>A first turn in flight that has received one YouTube payload, through a
  callback created before the submission.\<close>

definition streaming_state :: AppState where
  "streaming_state =
     \<lparr>processedEventsTimeline = [youtube_found_event payload],
      historicalActivities = Map.empty,
      youtubeResults = Some (stableResults payload 5 []),
      currentThreadId = ''thread_1_abc'', hasFinalizeEventOccurred = False\<rparr>"

definition some_env :: SubmitEnv where
  "some_env = \<lparr>now_thread = 7, random36 = ''0.4fzyo82mvyr'', now_message = 8\<rparr>"

text \<open>Transcripts that end with the assistant messages \<^verbatim>\<open>m1\<close> and \<^verbatim>\<open>m2\<close>.\<close>

definition transcript_m1 :: "Message list" where
  "transcript_m1 =
     [\<lparr>mtype = ''human'', content = ''first question'', mid = Some ''1''\<rparr>,
      \<lparr>mtype = ''ai'', content = ''first answer'', mid = Some ''m1''\<rparr>]"

definition transcript_m2 :: "Message list" where
  "transcript_m2 = transcript_m1 @
     [\<lparr>mtype = ''human'', content = ''second question'', mid = Some ''2''\<rparr>,
      \<lparr>mtype = ''ai'', content = ''second answer'', mid = Some ''m2''\<rparr>]"

definition done_m1 :: Thread where
  "done_m1 = \<lparr>messages = transcript_m1, isLoading = False\<rparr>"

definition done_m2 :: Thread where
  "done_m2 = \<lparr>messages = transcript_m2, isLoading = False\<rparr>"

text \<open>Two turns: the first gathers sources and is archived under \<^verbatim>\<open>m1\<close>, the second
  is submitted afterwards and archived under \<^verbatim>\<open>m2\<close>.\<close>

definition first_turn :: "Op list" where
  "first_turn =
     [Update (at_render [] 0) (web_research_only \<lparr>sources_gathered = Some example_sources\<rparr>),
      Update (at_render [] 1) finalize_only, Archive done_m1]"

definition second_turn :: "Op list" where
  "second_turn =
     [Submit done_m1 some_env ''second question'' ''low'' ''gemini'',
      Update (at_render [] 9) finalize_only, Archive done_m2]"

text \<open>The operations that cannot touch the archive entry of a given message: all but a
  cancellation and an archival that targets this very message.\<close>

fun leaves_entry :: "string \<Rightarrow> Op \<Rightarrow> bool" where
  "leaves_entry k Cancel = False"
| "leaves_entry k (Archive thread) = (archive_target thread \<noteq> Some k)"
| "leaves_entry k (Submit thread env input effort model) = True"
| "leaves_entry k (Update env event) = True"

section \<open>Properties\<close>

subsection \<open>Auxiliary facts\<close>

lemma foldl_Set_add:
  "foldl Set_add acc xs = acc @ first_distinct (filter (\<lambda>y. y \<notin> set acc) xs)"
proof (induction xs arbitrary: acc)
  case Nil
  show ?case by simp
next
  case (Cons x xs)
  show ?case
  proof (cases "x \<in> set acc")
    case True
    then show ?thesis using Cons.IH [of acc] by (simp add: Set_add_def)
  next
    case False
    have "filter (\<lambda>y. y \<notin> set (acc @ [x])) xs =
          filter (\<lambda>y. y \<noteq> x) (filter (\<lambda>y. y \<notin> set acc) xs)"
      by (induction xs) auto
    then show ?thesis using False Cons.IH [of "acc @ [x]"] by (simp add: Set_add_def)
  qed
qed

lemma new_Set_first_distinct: "new_Set xs = first_distinct xs"
  by (simp add: new_Set_def foldl_Set_add)

lemma set_first_distinct: "set (first_distinct xs) = set xs"
  by (induction xs rule: first_distinct.induct) auto

lemma distinct_first_distinct: "distinct (first_distinct xs)"
  by (induction xs rule: first_distinct.induct) (auto simp: set_first_distinct)

lemma join_empty_iff: "[] \<notin> set xs \<Longrightarrow> join sep xs = [] \<longleftrightarrow> xs = []"
  by (induction sep xs rule: join.induct) auto

lemma truthy_labels_nonempty: "[] \<notin> set (truthy_labels ss)"
  by (auto simp: truthy_labels_def List.map_filter_def split: option.splits if_splits)

lemma onUpdateEvent_youtubeResults:
  "youtubeResults (onUpdateEvent env event s) =
     (case forwarded_payload event of
        None \<Rightarrow> youtubeResults s
      | Some r \<Rightarrow> Some (stableResults r (date_now env) (closure_threadId env)))"
  by (auto simp: onUpdateEvent_def classify_def forwarded_payload_def has_videos_def
           split: option.splits)

lemma onUpdateEvent_historicalActivities:
  "historicalActivities (onUpdateEvent env event s) = historicalActivities s"
  by (auto simp: onUpdateEvent_def classify_def split: option.splits)

lemma run_Nil: "run s [] = s"
  by (simp add: run_def)

lemma run_Cons: "run s (op # ops) = run (step s op) ops"
  by (simp add: run_def)

lemma run_updates_youtubeResults:
  "list_all (\<lambda>(env, event). forwarded_payload event = None) evs \<Longrightarrow>
   youtubeResults (run s (updates evs)) = youtubeResults s"
proof (induction evs arbitrary: s)
  case Nil
  show ?case by (simp add: updates_def run_Nil)
next
  case (Cons e evs)
  obtain env event where e: "e = (env, event)" by (cases e)
  from Cons.prems e have none: "forwarded_payload event = None"
    and rest: "list_all (\<lambda>(env, event). forwarded_payload event = None) evs"
    by simp_all
  have "youtubeResults (run (onUpdateEvent env event s) (updates evs)) =
        youtubeResults (onUpdateEvent env event s)"
    using Cons.IH [OF rest] .
  also have "\<dots> = youtubeResults s"
    using none by (simp add: onUpdateEvent_youtubeResults)
  finally show ?case
    using e by (simp add: updates_def run_Cons)
qed

lemma archival_effect_historicalActivities:
  "historicalActivities (archival_effect thread s) =
     (if hasFinalizeEventOccurred s \<and> \<not> isLoading thread
      then (case archive_target thread of
              None \<Rightarrow> historicalActivities s
            | Some k \<Rightarrow> (historicalActivities s)(k \<mapsto> processedEventsTimeline s))
      else historicalActivities s)"
  by (auto simp: archival_effect_def archive_target_def known_id_def Let_def last_conv_nth
           split: option.splits)

lemma archival_effect_without_flag:
  "\<not> hasFinalizeEventOccurred s \<Longrightarrow> archival_effect thread s = s"
  by (simp add: archival_effect_def)

lemma archival_effect_resets_flag:
  "hasFinalizeEventOccurred s \<Longrightarrow> \<not> isLoading thread \<Longrightarrow> messages thread \<noteq> [] \<Longrightarrow>
   \<not> hasFinalizeEventOccurred (archival_effect thread s)"
  by (simp add: archival_effect_def Let_def)

lemma handleSubmit_historicalActivities:
  "historicalActivities (fst (handleSubmit thread env input effort model s)) =
   historicalActivities s"
  by (simp add: handleSubmit_def Let_def)

lemma classify_declared_kind:
  "declared_kind event \<Longrightarrow> fst (classify env event s) \<noteq> None"
  by (auto simp: declared_kind_def classify_def split: option.splits)

lemma classify_keeps_archive:
  "historicalActivities (snd (classify env event s)) = historicalActivities s \<and>
   processedEventsTimeline (snd (classify env event s)) = processedEventsTimeline s \<and>
   currentThreadId (snd (classify env event s)) = currentThreadId s"
  by (auto simp: classify_def split: option.splits)

subsection \<open>Where the YouTube card is shown\<close>

text \<open>
  C1, as stated: whether the payload is displayed depends on the stored state alone
  and not on viewport signals. The component \<^verbatim>\<open>YouTubeResults\<close> renders nothing
  while its flag \<^verbatim>\<open>isVisible\<close> is false, and the callback of its intersection
  observer clears the flag when the card leaves the viewport. The same transcript and
  the same stores are rendered twice below, once with the flag set and once cleared.
\<close>

theorem visibility_changes_display:
  "map youtube_shown (ChatMessagesView done_m1 streaming_state True) = [False, True] \<and>
   map youtube_shown (ChatMessagesView done_m1 streaming_state False) = [False, False] \<and>
   observer_callback (youtubeResults streaming_state)
     \<lparr>isIntersecting = False, intersectionRatio = 0\<rparr> True = False"
  by (simp add: ChatMessagesView_def render_message_def HumanMessageBubble_def
        AiMessageBubble_def shouldShowYouTube_def YouTubeResults_renders_def has_videos_def
        observer_callback_def done_m1_def transcript_m1_def streaming_state_def
        stableResults_def payload_def enumerate_eq_zip)

lemma YouTubeResults_renders_iff:
  "YouTubeResults_renders results isVisible = (has_videos results \<and> isVisible)"
  by (auto simp: YouTubeResults_renders_def has_videos_def split: option.splits)

text \<open>
  C1, amended: in a rendered transcript of N messages the payload is displayed on entry
  N only, and only when that entry is not a human message (so that the assistant
  bubble renders it), the payload holds at least one video, and the visibility flag of
  the card is set. It is displayed on no earlier entry. Two renders over the same
  stored state and the same flag display it identically.
\<close>

theorem youtube_shown_iff:
  assumes "i < length (messages thread)"
  shows "length (ChatMessagesView thread s isVisible) = length (messages thread) \<and>
         youtube_shown (ChatMessagesView thread s isVisible ! i) =
           (i = length (messages thread) - 1 \<and> mtype (messages thread ! i) \<noteq> ''human'' \<and>
            has_videos (youtubeResults s) \<and> isVisible)"
  using assms
  by (auto simp: ChatMessagesView_def render_message_def HumanMessageBubble_def
        AiMessageBubble_def shouldShowYouTube_def YouTubeResults_renders_iff
        nth_enumerate_eq Let_def)

theorem youtube_shown_iff_witness:
  "youtube_shown (ChatMessagesView done_m1 streaming_state True ! 1) \<and>
   \<not> youtube_shown (ChatMessagesView done_m1 streaming_state True ! 0)"
proof -
  have l: "(0::nat) < length (messages done_m1) \<and> (1::nat) < length (messages done_m1)"
    by (simp add: done_m1_def transcript_m1_def)
  have v: "has_videos (youtubeResults streaming_state)"
    by (simp add: streaming_state_def has_videos_def stableResults_def payload_def)
  show ?thesis
    using youtube_shown_iff [of 1 done_m1 streaming_state True]
      youtube_shown_iff [of 0 done_m1 streaming_state True] l v
    by (simp add: done_m1_def transcript_m1_def)
qed

subsection \<open>Archival under an identifier that has an entry\<close>

text \<open>
  C2, as stated: recording under a message identifier that already has an entry is a
  no-op, and a finalize event delivered twice is archived at most once. The code writes
  the entry again. Below, the turn ends and is archived under \<^verbatim>\<open>m1\<close>; the
  finalize event arrives a second time, the effect runs again, and the entry of
  \<^verbatim>\<open>m1\<close> is a different sequence.
\<close>

theorem second_archival_overwrites:
  "historicalActivities
     (run initial_state [Update (at_render [] 0) finalize_only, Archive done_m1]) ''m1'' =
     Some [finalize_event] \<and>
   historicalActivities
     (run initial_state
        [Update (at_render [] 0) finalize_only, Archive done_m1, Update (at_render [] 1) finalize_only, Archive done_m1])
     ''m1'' = Some [finalize_event, finalize_event]"
  by (simp add: run_def onUpdateEvent_def classify_def finalize_only_def empty_event_def
        archival_effect_def done_m1_def transcript_m1_def known_id_def initial_state_def)

text \<open>
  C2, amended: the archive is a map keyed by message identifier, so it holds at most
  one entry per identifier, and one run of the effect adds at most one key. Archival
  under an identifier replaces whatever entry it had by the current timeline. Each
  setting of the terminal flag leads to at most one archival: the effect resets the
  flag when it fires and changes nothing while the flag is reset, so a finalize event
  that arrives twice before the effect fires is archived once.
\<close>

theorem archival_replaces_entry:
  "historicalActivities (archival_effect thread s) =
     (if hasFinalizeEventOccurred s \<and> \<not> isLoading thread
      then (case archive_target thread of
              None \<Rightarrow> historicalActivities s
            | Some k \<Rightarrow> (historicalActivities s)(k \<mapsto> processedEventsTimeline s))
      else historicalActivities s) \<and>
   (hasFinalizeEventOccurred s \<and> \<not> isLoading thread \<and> messages thread \<noteq> [] \<longrightarrow>
      archival_effect thread' (archival_effect thread s) = archival_effect thread s) \<and>
   (\<not> isLoading thread \<and> messages thread \<noteq> [] \<longrightarrow>
      run s [Update env1 finalize_only, Update env2 finalize_only, Archive thread, Archive thread'] =
      run s [Update env1 finalize_only, Update env2 finalize_only, Archive thread])"
proof -
  have once: "archival_effect thread' (archival_effect thread t) = archival_effect thread t"
    if "hasFinalizeEventOccurred t" and "\<not> isLoading thread" and "messages thread \<noteq> []"
    for t
    using archival_effect_resets_flag [OF that] by (rule archival_effect_without_flag)
  have flag: "hasFinalizeEventOccurred
      (onUpdateEvent env2 finalize_only (onUpdateEvent env1 finalize_only s))"
    by (simp add: onUpdateEvent_def classify_def finalize_only_def empty_event_def)
  show ?thesis
    using once [of s] once [OF flag]
    by (simp add: archival_effect_historicalActivities run_def)
qed

theorem archival_replaces_entry_witness:
  "historicalActivities
     (archival_effect done_m1
        (initial_state\<lparr>processedEventsTimeline := [finalize_event],
                       historicalActivities := [''m1'' \<mapsto> []],
                       hasFinalizeEventOccurred := True\<rparr>)) =
     [''m1'' \<mapsto> [finalize_event]] \<and>
   archival_effect done_m2
     (archival_effect done_m1 (initial_state\<lparr>hasFinalizeEventOccurred := True\<rparr>)) =
     archival_effect done_m1 (initial_state\<lparr>hasFinalizeEventOccurred := True\<rparr>) \<and>
   run initial_state
     [Update (at_render [] 0) finalize_only, Update (at_render [] 1) finalize_only, Archive done_m1, Archive done_m2] =
   run initial_state [Update (at_render [] 0) finalize_only, Update (at_render [] 1) finalize_only, Archive done_m1]"
proof -
  have t: "archive_target done_m1 = Some ''m1''"
    by (simp add: archive_target_def done_m1_def transcript_m1_def known_id_def)
  have m: "\<not> isLoading done_m1 \<and> messages done_m1 \<noteq> []"
    by (simp add: done_m1_def transcript_m1_def)
  show ?thesis
    using archival_replaces_entry
        [of done_m1 "initial_state\<lparr>processedEventsTimeline := [finalize_event],
                       historicalActivities := [''m1'' \<mapsto> []],
                       hasFinalizeEventOccurred := True\<rparr>" done_m2
           "at_render [] 0" "at_render [] 1"]
      archival_replaces_entry
        [of done_m1 "initial_state\<lparr>hasFinalizeEventOccurred := True\<rparr>" done_m2
           "at_render [] 0" "at_render [] 1"]
      archival_replaces_entry [of done_m1 initial_state done_m2
           "at_render [] 0" "at_render [] 1"] t m
    by simp
qed

subsection \<open>The transition that archives a turn\<close>

text \<open>
  C3, as stated: when the turn is archived the timeline buffer is cleared. The effect
  does not touch the buffer: after the archival below it still holds the line of the
  finalize event.
\<close>

theorem archival_keeps_buffer:
  "processedEventsTimeline
     (run initial_state [Update (at_render [] 0) finalize_only, Archive done_m1]) = [finalize_event] \<and>
   processedEventsTimeline
     (run initial_state [Update (at_render [] 0) finalize_only, Archive done_m1]) \<noteq> []"
  by (simp add: run_def onUpdateEvent_def classify_def finalize_only_def empty_event_def
        archival_effect_def done_m1_def transcript_m1_def known_id_def initial_state_def)

text \<open>
  C3, amended: when the terminal flag is set, the transport is not loading and the last
  message is an assistant message with a known identifier, the effect stores a copy of
  the timeline under that identifier and resets the terminal flag; nothing else
  changes, so the buffer keeps its contents. Running the effect again changes nothing,
  so the record happens once. The buffer is emptied by the next submission with
  non-empty input.
\<close>

theorem archival_transition:
  assumes "hasFinalizeEventOccurred s" and "\<not> isLoading thread" and "messages thread \<noteq> []"
    and "mtype (last (messages thread)) = ''ai''"
    and "mid (last (messages thread)) = Some k" and "k \<noteq> []"
  shows "archival_effect thread s =
           s\<lparr>historicalActivities := (historicalActivities s)(k \<mapsto> processedEventsTimeline s),
             hasFinalizeEventOccurred := False\<rparr> \<and>
         archival_effect thread (archival_effect thread s) = archival_effect thread s \<and>
         processedEventsTimeline (archival_effect thread s) = processedEventsTimeline s \<and>
         (\<not> trim_is_empty input \<longrightarrow>
            processedEventsTimeline
              (fst (handleSubmit thread' env input effort model (archival_effect thread s))) = [])"
proof -
  have a: "archival_effect thread s =
           s\<lparr>historicalActivities := (historicalActivities s)(k \<mapsto> processedEventsTimeline s),
             hasFinalizeEventOccurred := False\<rparr>"
    using assms by (simp add: archival_effect_def Let_def known_id_def last_conv_nth)
  have b: "archival_effect thread (archival_effect thread s) = archival_effect thread s"
    using archival_effect_resets_flag [OF assms(1-3)] by (rule archival_effect_without_flag)
  have c: "\<not> trim_is_empty input \<longrightarrow>
            processedEventsTimeline (fst (handleSubmit thread' env input effort model t)) = []"
    for t
    by (simp add: handleSubmit_def Let_def)
  show ?thesis using a b c by simp
qed

theorem archival_transition_witness:
  "archival_effect done_m1 (run initial_state [Update (at_render [] 0) finalize_only]) =
     (run initial_state [Update (at_render [] 0) finalize_only])
       \<lparr>historicalActivities := [''m1'' \<mapsto> [finalize_event]],
        hasFinalizeEventOccurred := False\<rparr> \<and>
   processedEventsTimeline
     (archival_effect done_m1 (run initial_state [Update (at_render [] 0) finalize_only])) =
     [finalize_event] \<and>
   processedEventsTimeline
     (fst (handleSubmit done_m1 some_env ''second question'' ''low'' ''gemini''
        (archival_effect done_m1 (run initial_state [Update (at_render [] 0) finalize_only])))) = []"
proof -
  have s: "run initial_state [Update (at_render [] 0) finalize_only] =
           initial_state\<lparr>processedEventsTimeline := [finalize_event],
                         hasFinalizeEventOccurred := True\<rparr>"
    by (simp add: run_def onUpdateEvent_def classify_def finalize_only_def empty_event_def
          initial_state_def)
  have ne: "\<not> trim_is_empty ''second question''"
    by (simp add: trim_is_empty_def is_whitespace_def)
  have h1: "hasFinalizeEventOccurred (run initial_state [Update (at_render [] 0) finalize_only])"
    by (simp add: s)
  have h2: "\<not> isLoading done_m1" and h3: "messages done_m1 \<noteq> []"
    and h4: "mtype (last (messages done_m1)) = ''ai''"
    and h5: "mid (last (messages done_m1)) = Some ''m1''" and h6: "''m1'' \<noteq> []"
    by (simp_all add: done_m1_def transcript_m1_def)
  note inst = archival_transition [OF h1 h2 h3 h4 h5 h6,
      of "''second question''" done_m1 some_env "''low''" "''gemini''"]
  have hist: "historicalActivities (run initial_state [Update (at_render [] 0) finalize_only]) = Map.empty"
    and tl: "processedEventsTimeline (run initial_state [Update (at_render [] 0) finalize_only]) =
             [finalize_event]"
    unfolding s by (simp_all add: initial_state_def)
  have c1: "archival_effect done_m1 (run initial_state [Update (at_render [] 0) finalize_only]) =
     (run initial_state [Update (at_render [] 0) finalize_only])
       \<lparr>historicalActivities := [''m1'' \<mapsto> [finalize_event]],
        hasFinalizeEventOccurred := False\<rparr>"
    using inst by (simp add: hist tl)
  have c2: "processedEventsTimeline
     (archival_effect done_m1 (run initial_state [Update (at_render [] 0) finalize_only])) =
     [finalize_event]"
    using inst by (simp add: tl)
  have c3: "processedEventsTimeline
     (fst (handleSubmit done_m1 some_env ''second question'' ''low'' ''gemini''
        (archival_effect done_m1 (run initial_state [Update (at_render [] 0) finalize_only])))) = []"
    using inst ne by blast
  show ?thesis
    using c1 c2 c3 by blast
qed

subsection \<open>Cancellation\<close>






subsection \<open>Events with missing fields\<close>

text \<open>
  C5, as stated: an event whose kind is declared but whose sub-fields are missing is
  ignored, and the timeline stays as it was. The code does not do that. A
  \<^verbatim>\<open>web_research\<close> event without \<^verbatim>\<open>sources_gathered\<close> falls back to the empty
  list and a line is appended to the timeline.
\<close>

theorem missing_fields_not_ignored:
  "processedEventsTimeline
     (onUpdateEvent (at_render [] 0) (web_research_only \<lparr>sources_gathered = None\<rparr>) initial_state) =
     [\<lparr>title = ''Web Research'', data = ''Gathered 0 sources. Related to: N/A.''\<rparr>] \<and>
   processedEventsTimeline
     (onUpdateEvent (at_render [] 0) (web_research_only \<lparr>sources_gathered = None\<rparr>) initial_state) \<noteq>
     processedEventsTimeline initial_state"
  by (simp add: onUpdateEvent_def classify_def web_research_only_def empty_event_def
        research_event_def truthy_labels_def List.map_filter_def new_Set_def
        string_of_nat.simps digit_char_def initial_state_def)

text \<open>
  C5, amended: an event whose declared kind lacks sub-fields raises nothing and is not
  ignored. Whatever is missing, an event that declares a kind appends exactly one line
  to the timeline, and the archive and the thread identifier keep their values. With
  all sub-fields missing the line carries the fallback text of the kind, and the
  YouTube payload and the terminal flag are untouched as well. Only a record without
  any known kind leaves the state as it was.
\<close>

theorem missing_fields_give_fallback_text:
  "(declared_kind event \<longrightarrow>
      (\<exists>line. processedEventsTimeline (onUpdateEvent env event s) =
                processedEventsTimeline s @ [line]) \<and>
      historicalActivities (onUpdateEvent env event s) = historicalActivities s \<and>
      currentThreadId (onUpdateEvent env event s) = currentThreadId s) \<and>
   (\<not> declared_kind event \<longrightarrow> onUpdateEvent env event s = s) \<and>
   onUpdateEvent env
     (empty_event\<lparr>classify_intent := Some \<lparr>intent_type = None, confidence = None\<rparr>\<rparr>) s =
     s\<lparr>processedEventsTimeline := processedEventsTimeline s @
        [\<lparr>title = ''Analyzing Intent'', data = ''Detected: undefined (NaN% confidence)''\<rparr>]\<rparr> \<and>
   onUpdateEvent env (empty_event\<lparr>youtube_action := Some \<lparr>youtube_results = None\<rparr>\<rparr>) s =
     s\<lparr>processedEventsTimeline := processedEventsTimeline s @
        [\<lparr>title = ''YouTube Search'', data = ''No videos found or YouTube not configured''\<rparr>]\<rparr> \<and>
   onUpdateEvent env (empty_event\<lparr>generate_query := Some \<lparr>query_list = None\<rparr>\<rparr>) s =
     s\<lparr>processedEventsTimeline := processedEventsTimeline s @
        [\<lparr>title = ''Generating Search Queries'', data = []\<rparr>]\<rparr> \<and>
   onUpdateEvent env (empty_event\<lparr>web_research := Some \<lparr>sources_gathered = None\<rparr>\<rparr>) s =
     s\<lparr>processedEventsTimeline := processedEventsTimeline s @
        [\<lparr>title = ''Web Research'', data = ''Gathered 0 sources. Related to: N/A.''\<rparr>]\<rparr> \<and>
   onUpdateEvent env
     (empty_event\<lparr>reflection := Some \<lparr>is_sufficient = None, follow_up_queries = None\<rparr>\<rparr>) s =
     s\<lparr>processedEventsTimeline := processedEventsTimeline s @
        [\<lparr>title = ''Reflection'',
          data = ''Need more information, searching for additional information''\<rparr>]\<rparr>"
proof -
  have general: "declared_kind event \<longrightarrow>
      (\<exists>line. processedEventsTimeline (onUpdateEvent env event s) =
                processedEventsTimeline s @ [line]) \<and>
      historicalActivities (onUpdateEvent env event s) = historicalActivities s \<and>
      currentThreadId (onUpdateEvent env event s) = currentThreadId s"
  proof
    assume "declared_kind event"
    then obtain line where "fst (classify env event s) = Some line"
      using classify_declared_kind [of event env s] by auto
    then have "onUpdateEvent env event s =
        (snd (classify env event s))
          \<lparr>processedEventsTimeline :=
             processedEventsTimeline (snd (classify env event s)) @ [line]\<rparr>"
      by (cases "classify env event s") (simp add: onUpdateEvent_def)
    then show "(\<exists>line. processedEventsTimeline (onUpdateEvent env event s) =
                processedEventsTimeline s @ [line]) \<and>
      historicalActivities (onUpdateEvent env event s) = historicalActivities s \<and>
      currentThreadId (onUpdateEvent env event s) = currentThreadId s"
      using classify_keeps_archive [of env event s] by simp
  qed
  have none: "\<not> declared_kind event \<longrightarrow> onUpdateEvent env event s = s"
    by (auto simp: declared_kind_def onUpdateEvent_def classify_def split: option.splits)
  have texts: "onUpdateEvent env
     (empty_event\<lparr>classify_intent := Some \<lparr>intent_type = None, confidence = None\<rparr>\<rparr>) s =
     s\<lparr>processedEventsTimeline := processedEventsTimeline s @
        [\<lparr>title = ''Analyzing Intent'', data = ''Detected: undefined (NaN% confidence)''\<rparr>]\<rparr> \<and>
   onUpdateEvent env (empty_event\<lparr>youtube_action := Some \<lparr>youtube_results = None\<rparr>\<rparr>) s =
     s\<lparr>processedEventsTimeline := processedEventsTimeline s @
        [\<lparr>title = ''YouTube Search'', data = ''No videos found or YouTube not configured''\<rparr>]\<rparr> \<and>
   onUpdateEvent env (empty_event\<lparr>generate_query := Some \<lparr>query_list = None\<rparr>\<rparr>) s =
     s\<lparr>processedEventsTimeline := processedEventsTimeline s @
        [\<lparr>title = ''Generating Search Queries'', data = []\<rparr>]\<rparr> \<and>
   onUpdateEvent env (empty_event\<lparr>web_research := Some \<lparr>sources_gathered = None\<rparr>\<rparr>) s =
     s\<lparr>processedEventsTimeline := processedEventsTimeline s @
        [\<lparr>title = ''Web Research'', data = ''Gathered 0 sources. Related to: N/A.''\<rparr>]\<rparr> \<and>
   onUpdateEvent env
     (empty_event\<lparr>reflection := Some \<lparr>is_sufficient = None, follow_up_queries = None\<rparr>\<rparr>) s =
     s\<lparr>processedEventsTimeline := processedEventsTimeline s @
        [\<lparr>title = ''Reflection'',
          data = ''Need more information, searching for additional information''\<rparr>]\<rparr>"
    by (simp add: onUpdateEvent_def classify_def empty_event_def intent_event_def
        template_str_def has_videos_def youtube_none_event_def query_event_def
        research_event_def truthy_labels_def List.map_filter_def new_Set_def
        string_of_nat.simps digit_char_def reflection_event_def)
  show ?thesis
    using general none texts by blast
qed

text \<open>An intent event without its confidence, and a record without any kind.\<close>

theorem missing_fields_give_fallback_text_witness:
  "declared_kind
     (empty_event\<lparr>classify_intent := Some \<lparr>intent_type = Some ''youtube'', confidence = None\<rparr>\<rparr>) \<and>
   (\<exists>line. processedEventsTimeline
      (onUpdateEvent (at_render [] 0)
        (empty_event\<lparr>classify_intent :=
           Some \<lparr>intent_type = Some ''youtube'', confidence = None\<rparr>\<rparr>) streaming_state) =
      processedEventsTimeline streaming_state @ [line]) \<and>
   \<not> declared_kind empty_event \<and>
   onUpdateEvent (at_render [] 0) empty_event streaming_state = streaming_state"
proof -
  have d: "declared_kind
     (empty_event\<lparr>classify_intent := Some \<lparr>intent_type = Some ''youtube'', confidence = None\<rparr>\<rparr>)"
    by (simp add: declared_kind_def empty_event_def)
  have n: "\<not> declared_kind empty_event"
    by (simp add: declared_kind_def empty_event_def)
  show ?thesis
    using missing_fields_give_fallback_text
        [of "empty_event\<lparr>classify_intent :=
               Some \<lparr>intent_type = Some ''youtube'', confidence = None\<rparr>\<rparr>" "at_render [] 0" streaming_state]
      missing_fields_give_fallback_text [of empty_event "at_render [] 0" streaming_state] d n
    by blast
qed

subsection \<open>The summary of a web research event\<close>

text \<open>
  C6: for a \<^verbatim>\<open>web_research\<close> event (no earlier kind of the chain being present) the
  line appended to the timeline reports the number of gathered sources, then the first
  three distinct non-empty labels joined by a comma and a space, or \<^verbatim>\<open>N/A\<close> when
  there is no such label. The labels are taken in the order of their first appearance.
\<close>

theorem web_research_summary:
  assumes "classify_intent event = None" and "youtube_action event = None"
    and "generate_query event = None" and "web_research event = Some w"
    and "sources = (case sources_gathered w of None \<Rightarrow> [] | Some ss \<Rightarrow> ss)"
    and "labels = first_distinct (truthy_labels sources)"
  shows "onUpdateEvent env event s =
           s\<lparr>processedEventsTimeline := processedEventsTimeline s @
               [\<lparr>title = ''Web Research'',
                 data = ''Gathered '' @ string_of_nat (length sources) @
                        '' sources. Related to: '' @
                        (if labels = [] then ''N/A'' else join '', '' (take 3 labels)) @
                        ''.''\<rparr>]\<rparr> \<and>
         distinct labels \<and> set labels = set (truthy_labels sources) \<and> [] \<notin> set labels"
proof -
  have ne: "[] \<notin> set (take 3 labels)"
    using truthy_labels_nonempty [of sources] assms(6)
    by (auto simp: set_first_distinct dest: in_set_takeD)
  have "join '', '' (take 3 labels) = [] \<longleftrightarrow> labels = []"
    using join_empty_iff [OF ne, of "'', ''"] by auto
  then have "research_event w =
      \<lparr>title = ''Web Research'',
       data = ''Gathered '' @ string_of_nat (length sources) @ '' sources. Related to: '' @
              (if labels = [] then ''N/A'' else join '', '' (take 3 labels)) @ ''.''\<rparr>"
    using assms(5,6) by (simp add: research_event_def new_Set_first_distinct Let_def)
  then have "onUpdateEvent env event s =
           s\<lparr>processedEventsTimeline := processedEventsTimeline s @
               [\<lparr>title = ''Web Research'',
                 data = ''Gathered '' @ string_of_nat (length sources) @
                        '' sources. Related to: '' @
                        (if labels = [] then ''N/A'' else join '', '' (take 3 labels)) @
                        ''.''\<rparr>]\<rparr>"
    using assms(1-4) by (simp add: onUpdateEvent_def classify_def)
  moreover have "distinct labels" and "set labels = set (truthy_labels sources)"
    and "[] \<notin> set labels"
    using assms(6) truthy_labels_nonempty [of sources]
    by (simp_all add: distinct_first_distinct set_first_distinct)
  ultimately show ?thesis by simp
qed

text \<open>The example of the specification: labels a, a, b, c, d.\<close>

theorem web_research_summary_witness:
  "onUpdateEvent (at_render [] 0) (web_research_only \<lparr>sources_gathered = Some example_sources\<rparr>)
     initial_state =
     initial_state\<lparr>processedEventsTimeline :=
       [\<lparr>title = ''Web Research'', data = ''Gathered 5 sources. Related to: a, b, c.''\<rparr>]\<rparr>"
  using web_research_summary
    [of "web_research_only \<lparr>sources_gathered = Some example_sources\<rparr>"
        "\<lparr>sources_gathered = Some example_sources\<rparr>" example_sources
        "[''a'', ''b'', ''c'', ''d'']" "at_render [] 0" initial_state]
  by (simp add: web_research_only_def empty_event_def example_sources_def truthy_labels_def
        List.map_filter_def string_of_nat.simps digit_char_def initial_state_def)

subsection \<open>The YouTube payload at a new submission\<close>

text \<open>
  C7: a submission with non-empty input clears the YouTube payload exactly when the
  transport is not loading. When it is loading the payload stays, also through every
  later event that forwards no payload, and the next event that forwards one replaces
  it.
\<close>

theorem submit_clears_payload_unless_loading:
  assumes "\<not> trim_is_empty submittedInputValue"
    and "s' = fst (handleSubmit thread env submittedInputValue effort model s)"
  shows "youtubeResults s' = (if isLoading thread then youtubeResults s else None) \<and>
         (list_all (\<lambda>(uenv, event). forwarded_payload event = None) evs \<longrightarrow>
            youtubeResults (run s' (updates evs)) =
              (if isLoading thread then youtubeResults s else None)) \<and>
         (forwarded_payload event = Some r \<longrightarrow>
            youtubeResults (onUpdateEvent uenv event (run s' (updates evs))) =
              Some (stableResults r (date_now uenv) (closure_threadId uenv)))"
proof -
  have first: "youtubeResults s' = (if isLoading thread then youtubeResults s else None)"
    using assms by (simp add: handleSubmit_def Let_def)
  show ?thesis
    using first by (simp add: run_updates_youtubeResults onUpdateEvent_youtubeResults)
qed

text \<open>A second submission while the first turn is in flight. The events that follow
  come through a callback created before that submission.\<close>

theorem submit_clears_payload_unless_loading_witness:
  "youtubeResults (fst (handleSubmit \<lparr>messages = [], isLoading = True\<rparr> some_env
       ''next question'' ''low'' ''gemini'' streaming_state)) =
     Some (stableResults payload 5 []) \<and>
   youtubeResults (fst (handleSubmit \<lparr>messages = [], isLoading = False\<rparr> some_env
       ''next question'' ''low'' ''gemini'' streaming_state)) = None \<and>
   youtubeResults (run (fst (handleSubmit \<lparr>messages = [], isLoading = True\<rparr> some_env
       ''next question'' ''low'' ''gemini'' streaming_state))
       (updates [(at_render ''thread_1_abc'' 9, finalize_only)])) =
     Some (stableResults payload 5 []) \<and>
   youtubeResults (onUpdateEvent (at_render ''thread_1_abc'' 10) (youtube_only (Some payload))
     (run (fst (handleSubmit \<lparr>messages = [], isLoading = True\<rparr> some_env
       ''next question'' ''low'' ''gemini'' streaming_state))
       (updates [(at_render ''thread_1_abc'' 9, finalize_only)]))) =
     Some (stableResults payload 10 ''thread_1_abc'')"
proof -
  have ne: "\<not> trim_is_empty ''next question''"
    by (simp add: trim_is_empty_def is_whitespace_def)
  have ev: "list_all (\<lambda>(uenv, event). forwarded_payload event = None)
      [(at_render ''thread_1_abc'' 9, finalize_only)]"
    by (simp add: forwarded_payload_def finalize_only_def empty_event_def)
  have fw: "forwarded_payload (youtube_only (Some payload)) = Some payload"
    by (simp add: forwarded_payload_def youtube_only_def empty_event_def has_videos_def
          payload_def)
  have e: "date_now (at_render ''thread_1_abc'' 10) = 10 \<and>
           closure_threadId (at_render ''thread_1_abc'' 10) = ''thread_1_abc''"
    by (simp add: at_render_def)
  show ?thesis
    using submit_clears_payload_unless_loading [OF ne refl,
        of "\<lparr>messages = [], isLoading = True\<rparr>" some_env "''low''" "''gemini''"
           streaming_state "[(at_render ''thread_1_abc'' 9, finalize_only)]"
           "youtube_only (Some payload)" payload "at_render ''thread_1_abc'' 10"]
      submit_clears_payload_unless_loading [OF ne refl,
        of "\<lparr>messages = [], isLoading = False\<rparr>" some_env "''low''" "''gemini''"
           streaming_state "[]" finalize_only]
      ev fw e
    by (simp add: streaming_state_def)
qed

subsection \<open>A YouTube event without videos\<close>

text \<open>
  C8: a \<^verbatim>\<open>youtube_action\<close> event whose result list is empty or absent appends the
  line that reports no videos and leaves the YouTube payload, and the rest of the
  state, as it was. An event changes the payload only if it is a
  \<^verbatim>\<open>youtube_action\<close> event with at least one video.
\<close>

theorem youtube_action_without_videos:
  assumes "classify_intent event = None" and "youtube_action event = Some ya"
    and "\<not> has_videos (youtube_results ya)"
  shows "onUpdateEvent env event s =
           s\<lparr>processedEventsTimeline := processedEventsTimeline s @
               [\<lparr>title = ''YouTube Search'',
                 data = ''No videos found or YouTube not configured''\<rparr>]\<rparr> \<and>
         youtubeResults (onUpdateEvent env event s) = youtubeResults s \<and>
         (youtubeResults (onUpdateEvent env' event' s) \<noteq> youtubeResults s \<longrightarrow>
            (\<exists>ya'. youtube_action event' = Some ya' \<and> has_videos (youtube_results ya')))"
proof -
  have a: "onUpdateEvent env event s =
           s\<lparr>processedEventsTimeline := processedEventsTimeline s @
               [\<lparr>title = ''YouTube Search'',
                 data = ''No videos found or YouTube not configured''\<rparr>]\<rparr>"
    using assms by (simp add: onUpdateEvent_def classify_def youtube_none_event_def)
  have b: "youtubeResults (onUpdateEvent env' event' s) \<noteq> youtubeResults s \<longrightarrow>
            (\<exists>ya'. youtube_action event' = Some ya' \<and> has_videos (youtube_results ya'))"
    by (auto simp: onUpdateEvent_youtubeResults forwarded_payload_def
             split: option.splits if_splits)
  show ?thesis using a b by simp
qed

theorem youtube_action_without_videos_witness:
  "onUpdateEvent (at_render [] 9) (youtube_only (Some \<lparr>videos = Some [], query = Some ''cats'',
       total_results = Some 0\<rparr>)) streaming_state =
     streaming_state\<lparr>processedEventsTimeline :=
       [youtube_found_event payload,
        \<lparr>title = ''YouTube Search'', data = ''No videos found or YouTube not configured''\<rparr>]\<rparr> \<and>
   onUpdateEvent (at_render [] 9) (youtube_only None) streaming_state =
     streaming_state\<lparr>processedEventsTimeline :=
       [youtube_found_event payload,
        \<lparr>title = ''YouTube Search'', data = ''No videos found or YouTube not configured''\<rparr>]\<rparr> \<and>
   youtubeResults (onUpdateEvent (at_render [] 9) (youtube_only (Some payload)) streaming_state) \<noteq>
     youtubeResults streaming_state \<and>
   (\<exists>ya'. youtube_action (youtube_only (Some payload)) = Some ya' \<and>
      has_videos (youtube_results ya'))"
proof -
  have h1: "classify_intent (youtube_only r) = None" for r
    by (simp add: youtube_only_def empty_event_def)
  have h2: "youtube_action (youtube_only r) = Some \<lparr>youtube_results = r\<rparr>" for r
    by (simp add: youtube_only_def empty_event_def)
  have h3: "\<not> has_videos (youtube_results \<lparr>youtube_results =
      Some \<lparr>videos = Some [], query = Some ''cats'', total_results = Some 0\<rparr>\<rparr>)"
    by (simp add: has_videos_def)
  have h4: "\<not> has_videos (youtube_results \<lparr>youtube_results = (None :: YouTubeResults option)\<rparr>)"
    by (simp add: has_videos_def)
  have c: "youtubeResults (onUpdateEvent (at_render [] 9) (youtube_only (Some payload)) streaming_state) \<noteq>
     youtubeResults streaming_state"
    by (simp add: onUpdateEvent_youtubeResults forwarded_payload_def youtube_only_def
          empty_event_def has_videos_def payload_def streaming_state_def stableResults_def
          at_render_def)
  show ?thesis
    using youtube_action_without_videos [OF h1 h2 h3, of "at_render [] 9" streaming_state "at_render [] 9"
        "youtube_only (Some payload)"]
      youtube_action_without_videos [OF h1 h2 h4, of "at_render [] 9" streaming_state "at_render [] 9"
        "youtube_only (Some payload)"] c
    by (simp add: streaming_state_def)
qed

subsection \<open>Entries of the archive over a session\<close>

text \<open>
  C9, as stated: after two turns are archived under \<^verbatim>\<open>m1\<close> and \<^verbatim>\<open>m2\<close>, the entry
  of \<^verbatim>\<open>m1\<close> survives every later operation, cancellation included. A cancellation
  reloads the page, and the archive is empty afterwards.
\<close>

theorem cancel_discards_archive:
  "historicalActivities (run initial_state (first_turn @ second_turn)) ''m1'' =
     Some [\<lparr>title = ''Web Research'', data = ''Gathered 5 sources. Related to: a, b, c.''\<rparr>,
           finalize_event] \<and>
   historicalActivities (run initial_state (first_turn @ second_turn)) ''m2'' =
     Some [finalize_event] \<and>
   historicalActivities (run initial_state (first_turn @ second_turn @ [Cancel])) ''m1'' =
     None"
  by (simp add: run_def first_turn_def second_turn_def onUpdateEvent_def classify_def
        web_research_only_def finalize_only_def empty_event_def research_event_def
        example_sources_def truthy_labels_def List.map_filter_def new_Set_def Set_add_def
        string_of_nat.simps digit_char_def archival_effect_def done_m1_def done_m2_def
        transcript_m1_def transcript_m2_def known_id_def handleSubmit_def
        trim_is_empty_def is_whitespace_def handleCancel_def reload_def initial_state_def
        Let_def)

lemma step_leaves_entry:
  "leaves_entry k op \<Longrightarrow> historicalActivities (step s op) k = historicalActivities s k"
  by (cases op)
     (auto simp: handleSubmit_historicalActivities onUpdateEvent_historicalActivities
        archival_effect_historicalActivities split: option.splits)

text \<open>
  C9, amended: the entry of a message survives every later submission, every later
  event and every later archival under another message identifier, whatever the
  transport reports in between; in particular the entry of \<^verbatim>\<open>m1\<close> is the first
  turn's sequence after the second turn is archived under \<^verbatim>\<open>m2\<close>. None of these
  operations removes an entry. An archival under the same identifier replaces the
  entry, and a cancellation empties the archive.
\<close>

theorem archive_entry_stable:
  assumes "list_all (leaves_entry k) ops"
  shows "historicalActivities (run s ops) k = historicalActivities s k \<and>
         historicalActivities (step (run s ops) Cancel) = Map.empty"
proof -
  have "historicalActivities (run s ops) k = historicalActivities s k"
    using assms
  proof (induction ops arbitrary: s)
    case Nil
    show ?case by (simp add: run_Nil)
  next
    case (Cons op ops)
    then have "historicalActivities (run (step s op) ops) k =
               historicalActivities (step s op) k"
      by simp
    also have "\<dots> = historicalActivities s k"
      using Cons.prems by (simp add: step_leaves_entry)
    finally show ?case by (simp add: run_Cons)
  qed
  moreover have "historicalActivities (step t Cancel) = Map.empty" for t
    by (simp add: handleCancel_def reload_def initial_state_def)
  ultimately show ?thesis by simp
qed

theorem archive_entry_stable_witness:
  "list_all (leaves_entry ''m1'') second_turn \<and>
   historicalActivities (run (run initial_state first_turn) second_turn) ''m1'' =
     Some [\<lparr>title = ''Web Research'', data = ''Gathered 5 sources. Related to: a, b, c.''\<rparr>,
           finalize_event]"
proof -
  have h: "list_all (leaves_entry ''m1'') second_turn"
    by (simp add: second_turn_def archive_target_def done_m2_def transcript_m2_def
          transcript_m1_def known_id_def)
  have first: "historicalActivities (run initial_state first_turn) ''m1'' =
     Some [\<lparr>title = ''Web Research'', data = ''Gathered 5 sources. Related to: a, b, c.''\<rparr>,
           finalize_event]"
    by (simp add: run_def first_turn_def onUpdateEvent_def classify_def
          web_research_only_def finalize_only_def empty_event_def research_event_def
          example_sources_def truthy_labels_def List.map_filter_def new_Set_def Set_add_def
          string_of_nat.simps digit_char_def archival_effect_def done_m1_def
          transcript_m1_def known_id_def initial_state_def Let_def)
  show ?thesis
    using archive_entry_stable [OF h, of "run initial_state first_turn"] h first by simp
qed

subsection \<open>An effort value without a case\<close>

text \<open>
  C10: a submission with non-empty input whose effort is none of \<^verbatim>\<open>low\<close>,
  \<^verbatim>\<open>medium\<close>, \<^verbatim>\<open>high\<close> sends both counters as zero.
\<close>

theorem effort_without_case_sends_zero:
  assumes "\<not> trim_is_empty submittedInputValue"
    and "effort \<noteq> ''low''" and "effort \<noteq> ''medium''" and "effort \<noteq> ''high''"
  shows "snd (handleSubmit thread env submittedInputValue effort model s) =
           [thread_submit
              \<lparr>submitted_messages = messages thread @
                 [\<lparr>mtype = ''human'', content = submittedInputValue,
                   mid = Some (string_of_nat (now_message env))\<rparr>],
               initial_search_query_count = 0, max_research_loops = 0,
               reasoning_model = model\<rparr>]"
  using assms by (simp add: handleSubmit_def effort_counts_def Let_def)

theorem effort_without_case_sends_zero_witness:
  "snd (handleSubmit \<lparr>messages = [], isLoading = False\<rparr> some_env
          ''capital of France'' ''extreme'' ''gemini'' initial_state) =
     [thread_submit
        \<lparr>submitted_messages =
           [\<lparr>mtype = ''human'', content = ''capital of France'', mid = Some ''8''\<rparr>],
         initial_search_query_count = 0, max_research_loops = 0,
         reasoning_model = ''gemini''\<rparr>]"
  using effort_without_case_sends_zero
    [of "''capital of France''" "''extreme''" "\<lparr>messages = [], isLoading = False\<rparr>"
        some_env "''gemini''" initial_state]
  by (simp add: trim_is_empty_def is_whitespace_def some_env_def string_of_nat.simps
        digit_char_def)

end
